theory Spec2Isabelle
  imports Main
begin

section \<open>The pgoutput decoders of \<open>pg_replication/decoders.py\<close>\<close>

text \<open>
  The module decodes PostgreSQL logical-replication messages from a byte buffer.
  Every message class wraps the buffer in an \<open>io.BytesIO\<close> and reads it front to back.

  Modelling decisions.
  \<^item> A Python \<open>bytes\<close> value is a list of \<open>char\<close> (a HOL \<open>char\<close> is one byte).
  \<^item> The \<open>BytesIO\<close> cursor is the list of bytes not yet read: a read returns the bytes
    it takes together with the bytes that are left.
  \<^item> A Python \<open>str\<close> is represented by its UTF-8 encoding, so \<open>bytes.decode("utf-8")\<close>
    is the identity on well-formed input and raises otherwise. The source only
    compares decoded strings for equality, which this representation preserves.
  \<^item> Python integers are unbounded: \<open>int\<close>.
  \<^item> An exception is a value of type \<open>error\<close>; a function that can raise returns
    \<open>error + 'a\<close>.
  \<^item> The loop of \<open>read_string\<close> need not terminate, so it is a partial function whose
    value \<open>None\<close> means that the call never returns.
\<close>

subsection \<open>Errors\<close>

text \<open>
  The exceptions the source can raise, under the names the specification gives them:
  \<^item> \<open>TagMismatch\<close>: the \<open>ValueError\<close> "first byte in buffer does not match ..." of
    every \<open>decode_buffer\<close>;
  \<^item> \<open>ExpectedNewTupleMarker\<close>: the \<open>ValueError\<close> "did not find new_tuple_byte ('N')"
    of \<open>Update.decode_buffer\<close>;
  \<^item> \<open>InvalidReplicaIdentityOrMessageTag\<close>: the \<open>ValueError\<close> "message type byte is
    not 'K' or 'O'" of \<open>Delete.decode_buffer\<close>;
  \<^item> \<open>InvalidEncoding\<close>: the \<open>UnicodeDecodeError\<close> of \<open>bytes.decode("utf-8")\<close>;
  \<^item> \<open>DateOutOfRange\<close>: the \<open>OverflowError\<close> of \<open>datetime + timedelta\<close>.

  The specification names three more. No statement of the source raises them:
  \<open>UnexpectedEndOfBuffer\<close>, \<open>InvalidColumnCategory\<close> and \<open>UnsupportedMessageType\<close>.
\<close>

datatype error =
    TagMismatch
  | ExpectedNewTupleMarker
  | InvalidReplicaIdentityOrMessageTag
  | InvalidEncoding
  | DateOutOfRange
  | UnexpectedEndOfBuffer
  | InvalidColumnCategory
  | UnsupportedMessageType

type_synonym bytes = "char list"

subsection \<open>Integer widths\<close>

definition INT8 :: int where "INT8 = 1"
definition INT16 :: int where "INT16 = 2"
definition INT32 :: int where "INT32 = 4"
definition INT64 :: int where "INT64 = 8"

subsection \<open>Timestamps\<close>

text \<open>
  A \<open>datetime\<close> in UTC is the number of microseconds since 0001-01-01T00:00:00, the
  first instant the Python type can hold; the last one is
  9999-12-31T23:59:59.999999. The day number follows \<open>datetime.toordinal\<close>.
\<close>

type_synonym datetime = int

definition is_leap :: "int \<Rightarrow> bool" where
  "is_leap y = (y mod 4 = 0 \<and> (y mod 100 \<noteq> 0 \<or> y mod 400 = 0))"

definition days_before_year :: "int \<Rightarrow> int" where
  "days_before_year y = (y - 1) * 365 + (y - 1) div 4 - (y - 1) div 100 + (y - 1) div 400"

definition days_before_month :: "int \<Rightarrow> int \<Rightarrow> int" where
  "days_before_month y m =
     sum_list (take (nat (m - 1))
       [31, if is_leap y then 29 else 28, 31, 30, 31, 30, 31, 31, 30, 31, 30, 31])"

definition ymd2ord :: "int \<Rightarrow> int \<Rightarrow> int \<Rightarrow> int" where
  "ymd2ord y m d = days_before_year y + days_before_month y m + d"

definition mk_datetime :: "int \<Rightarrow> int \<Rightarrow> int \<Rightarrow> int \<Rightarrow> int \<Rightarrow> int \<Rightarrow> int \<Rightarrow> datetime" where
  "mk_datetime y mo d h mi s us =
     ((((ymd2ord y mo d - 1) * 24 + h) * 60 + mi) * 60 + s) * 1000000 + us"

definition datetime_max :: datetime where
  "datetime_max = mk_datetime 9999 12 31 23 59 59 999999"

definition pg_epoch :: datetime where
  "pg_epoch = mk_datetime 2000 1 1 0 0 0 0"

text \<open>
  \<open>convert_pg_ts\<close> adds a \<open>timedelta\<close> of the given microseconds to the epoch
  2000-01-01T00:00:00 UTC. The addition raises \<open>OverflowError\<close> when the sum leaves the
  range of \<open>datetime\<close>. (Building the \<open>timedelta\<close> raises the same exception beyond
  999999999 days, which is far outside that range already.)
\<close>

definition convert_pg_ts :: "int \<Rightarrow> error + datetime" where
  "convert_pg_ts ts_in_microseconds =
     (let ts = pg_epoch + ts_in_microseconds
      in if 0 \<le> ts \<and> ts \<le> datetime_max then Inr ts else Inl DateOutOfRange)"

subsection \<open>Bytes to integers and to text\<close>

text \<open>
  \<open>int.from_bytes(b, byteorder="big", signed=True)\<close>: the big-endian value of the
  bytes, read as two's complement over \<open>8 * len(b)\<close> bits. The empty byte string
  gives 0.
\<close>

definition big_endian :: "bytes \<Rightarrow> int" where
  "big_endian bs = foldl (\<lambda>acc b. acc * 256 + of_char b) 0 bs"

definition convert_bytes_to_int :: "bytes \<Rightarrow> int" where
  "convert_bytes_to_int in_bytes =
     (if in_bytes \<noteq> [] \<and> (128::int) \<le> of_char (hd in_bytes)
      then big_endian in_bytes - 2 ^ (8 * length in_bytes)
      else big_endian in_bytes)"

text \<open>
  Well-formed UTF-8, as the strict decoder of Python accepts it: no overlong forms, no
  surrogates, nothing above U+10FFFF.
\<close>

definition in_range :: "nat \<Rightarrow> nat \<Rightarrow> char \<Rightarrow> bool" where
  "in_range lo hi c = (lo \<le> of_char c \<and> (of_char c :: nat) \<le> hi)"

fun valid_utf8 :: "bytes \<Rightarrow> bool" where
  "valid_utf8 [] = True"
| "valid_utf8 (b # bs) =
     (if (of_char b :: nat) < 0x80 then valid_utf8 bs
      else if in_range 0xC2 0xDF b then
        (case bs of
           c1 # r \<Rightarrow> in_range 0x80 0xBF c1 \<and> valid_utf8 r
         | _ \<Rightarrow> False)
      else if in_range 0xE0 0xEF b then
        (case bs of
           c1 # c2 # r \<Rightarrow>
             in_range (if (of_char b :: nat) = 0xE0 then 0xA0 else 0x80)
                      (if (of_char b :: nat) = 0xED then 0x9F else 0xBF) c1
             \<and> in_range 0x80 0xBF c2 \<and> valid_utf8 r
         | _ \<Rightarrow> False)
      else if in_range 0xF0 0xF4 b then
        (case bs of
           c1 # c2 # c3 # r \<Rightarrow>
             in_range (if (of_char b :: nat) = 0xF0 then 0x90 else 0x80)
                      (if (of_char b :: nat) = 0xF4 then 0x8F else 0xBF) c1
             \<and> in_range 0x80 0xBF c2 \<and> in_range 0x80 0xBF c3 \<and> valid_utf8 r
         | _ \<Rightarrow> False)
      else False)"

definition convert_bytes_to_utf8 :: "bytes \<Rightarrow> error + string" where
  "convert_bytes_to_utf8 in_bytes =
     (if valid_utf8 in_bytes then Inr in_bytes else Inl InvalidEncoding)"

subsection \<open>Reading from the buffer\<close>

text \<open>
  \<open>BytesIO.read(n)\<close> returns at most \<open>n\<close> bytes: fewer when fewer are left, none at
  the end of the buffer. A negative \<open>n\<close> reads everything that is left.
\<close>

definition buffer_read :: "int \<Rightarrow> bytes \<Rightarrow> bytes \<times> bytes" where
  "buffer_read n buf =
     (if n < 0 then (buf, []) else (take (nat n) buf, drop (nat n) buf))"

definition read_int8 :: "bytes \<Rightarrow> int \<times> bytes" where
  "read_int8 buf = (case buffer_read INT8 buf of (b, buf') \<Rightarrow> (convert_bytes_to_int b, buf'))"

definition read_int16 :: "bytes \<Rightarrow> int \<times> bytes" where
  "read_int16 buf = (case buffer_read INT16 buf of (b, buf') \<Rightarrow> (convert_bytes_to_int b, buf'))"

definition read_int32 :: "bytes \<Rightarrow> int \<times> bytes" where
  "read_int32 buf = (case buffer_read INT32 buf of (b, buf') \<Rightarrow> (convert_bytes_to_int b, buf'))"

definition read_int64 :: "bytes \<Rightarrow> int \<times> bytes" where
  "read_int64 buf = (case buffer_read INT64 buf of (b, buf') \<Rightarrow> (convert_bytes_to_int b, buf'))"

definition read_utf8 :: "int \<Rightarrow> bytes \<Rightarrow> error + (string \<times> bytes)" where
  "read_utf8 n buf =
     (case buffer_read n buf of (b, buf') \<Rightarrow>
        (case convert_bytes_to_utf8 b of Inl e \<Rightarrow> Inl e | Inr s \<Rightarrow> Inr (s, buf')))"

definition read_timestamp :: "bytes \<Rightarrow> error + (datetime \<times> bytes)" where
  "read_timestamp buf =
     (case read_int64 buf of (us, buf') \<Rightarrow>
        (case convert_pg_ts us of Inl e \<Rightarrow> Inl e | Inr ts \<Rightarrow> Inr (ts, buf')))"

text \<open>
  \<open>read_string\<close>: the loop reads one byte at a time until it reads the byte 0. At the
  end of the buffer \<open>read(1)\<close> returns the empty byte string, which is not the byte 0,
  so the loop goes on.
\<close>

partial_function (option) read_string_loop :: "bytes \<Rightarrow> bytes \<Rightarrow> (bytes \<times> bytes) option" where
  "read_string_loop output buf =
     (case buffer_read 1 buf of (next_char, buf') \<Rightarrow>
        if next_char \<noteq> [CHR 0x00] then read_string_loop (output @ next_char) buf'
        else Some (output, buf'))"

definition read_string :: "bytes \<Rightarrow> (error + (string \<times> bytes)) option" where
  "read_string buf =
     (case read_string_loop [] buf of
        None \<Rightarrow> None
      | Some (output, buf') \<Rightarrow>
          Some (case convert_bytes_to_utf8 output of
                  Inl e \<Rightarrow> Inl e
                | Inr s \<Rightarrow> Inr (s, buf')))"

subsection \<open>TupleData\<close>

record ColumnData =
  col_data_category :: "string option"
  col_data_length :: "int option"
  col_data :: "string option"

record ColumnType =
  part_of_pkey :: int
  name :: string
  type_id :: int
  atttypmod :: int

record TupleData =
  n_columns :: int
  column_data :: "ColumnData list"

text \<open>
  The body of the loop \<open>for column in range(n_columns)\<close> of \<open>read_tuple_data\<close>, run
  for the number of iterations that are left. A category other than "n", "u" and "t"
  falls through the \<open>if\<close>/\<open>elif\<close>: nothing is appended and the loop goes on.
\<close>

fun read_columns :: "nat \<Rightarrow> ColumnData list \<Rightarrow> bytes \<Rightarrow> error + (ColumnData list \<times> bytes)" where
  "read_columns 0 cols buf = Inr (cols, buf)"
| "read_columns (Suc k) cols buf =
     (case read_utf8 1 buf of
        Inl e \<Rightarrow> Inl e
      | Inr (category, buf1) \<Rightarrow>
          if category = ''n'' \<or> category = ''u'' then
            read_columns k
              (cols @ [\<lparr>col_data_category = Some category, col_data_length = None,
                        col_data = None\<rparr>]) buf1
          else if category = ''t'' then
            (case read_int32 buf1 of (len, buf2) \<Rightarrow>
               (case read_utf8 len buf2 of
                  Inl e \<Rightarrow> Inl e
                | Inr (val, buf3) \<Rightarrow>
                    read_columns k
                      (cols @ [\<lparr>col_data_category = Some category, col_data_length = Some len,
                                col_data = Some val\<rparr>]) buf3))
          else read_columns k cols buf1)"

text \<open>\<open>range(n)\<close> is empty for \<open>n \<le> 0\<close>, hence \<open>nat n\<close> iterations.\<close>

definition read_tuple_data :: "bytes \<Rightarrow> error + (TupleData \<times> bytes)" where
  "read_tuple_data buf =
     (case read_int16 buf of (n, buf1) \<Rightarrow>
        (case read_columns (nat n) [] buf1 of
           Inl e \<Rightarrow> Inl e
         | Inr (cols, buf2) \<Rightarrow> Inr (\<lparr>n_columns = n, column_data = cols\<rparr>, buf2)))"

subsection \<open>Messages\<close>

text \<open>
  Each message class is a record of the attributes its \<open>decode_buffer\<close> assigns, with
  the class name as a prefix of the field names. \<open>PgoutputMessage.__init__\<close> reads the
  first byte as text into \<open>byte1\<close> and calls \<open>decode_buffer\<close>; an exception leaves no
  object behind.
\<close>

record Begin =
  begin_byte1 :: string
  begin_lsn :: int
  begin_commit_ts :: datetime
  begin_tx_xid :: int

record Commit =
  commit_byte1 :: string
  commit_flags :: int
  commit_lsn_commit :: int
  commit_lsn :: int
  commit_commit_ts :: datetime

record Relation =
  relation_byte1 :: string
  relation_relation_id :: int
  relation_namespace :: string
  relation_relation_name :: string
  relation_replica_identity_setting :: string
  relation_n_columns :: int
  relation_columns :: "ColumnType list"

record Insert =
  insert_byte1 :: string
  insert_relation_id :: int
  insert_new_tuple_byte :: string
  insert_new_tuple :: TupleData

record Update =
  update_byte1 :: string
  update_relation_id :: int
  update_next_byte_identifier :: string
  update_optional_tuple_identifier :: "string option"
  update_old_tuple :: "TupleData option"
  update_new_tuple_byte :: string
  update_new_tuple :: TupleData

record Delete =
  delete_byte1 :: string
  delete_relation_id :: int
  delete_message_type :: string
  delete_old_tuple :: TupleData

record Truncate =
  truncate_byte1 :: string
  truncate_number_of_relations :: int
  truncate_option_bits :: int
  truncate_relation_ids :: "int list"

subsubsection \<open>Begin\<close>

definition Begin_decode_buffer :: "string \<Rightarrow> bytes \<Rightarrow> error + Begin" where
  "Begin_decode_buffer byte1 buf =
     (if byte1 \<noteq> ''B'' then Inl TagMismatch
      else case read_int64 buf of (lsn, buf1) \<Rightarrow>
        (case read_timestamp buf1 of
           Inl e \<Rightarrow> Inl e
         | Inr (commit_ts, buf2) \<Rightarrow>
             (case read_int64 buf2 of (tx_xid, buf3) \<Rightarrow>
                Inr \<lparr>begin_byte1 = byte1, begin_lsn = lsn, begin_commit_ts = commit_ts,
                     begin_tx_xid = tx_xid\<rparr>)))"

definition Begin_init :: "bytes \<Rightarrow> error + Begin" where
  "Begin_init buffer =
     (case read_utf8 1 buffer of
        Inl e \<Rightarrow> Inl e
      | Inr (byte1, buf) \<Rightarrow> Begin_decode_buffer byte1 buf)"

subsubsection \<open>Commit\<close>

definition Commit_decode_buffer :: "string \<Rightarrow> bytes \<Rightarrow> error + Commit" where
  "Commit_decode_buffer byte1 buf =
     (if byte1 \<noteq> ''C'' then Inl TagMismatch
      else case read_int8 buf of (flags, buf1) \<Rightarrow>
        (case read_int64 buf1 of (lsn_commit, buf2) \<Rightarrow>
           (case read_int64 buf2 of (lsn, buf3) \<Rightarrow>
              (case read_timestamp buf3 of
                 Inl e \<Rightarrow> Inl e
               | Inr (commit_ts, buf4) \<Rightarrow>
                   Inr \<lparr>commit_byte1 = byte1, commit_flags = flags,
                        commit_lsn_commit = lsn_commit, commit_lsn = lsn,
                        commit_commit_ts = commit_ts\<rparr>))))"

definition Commit_init :: "bytes \<Rightarrow> error + Commit" where
  "Commit_init buffer =
     (case read_utf8 1 buffer of
        Inl e \<Rightarrow> Inl e
      | Inr (byte1, buf) \<Rightarrow> Commit_decode_buffer byte1 buf)"

subsubsection \<open>Relation\<close>

text \<open>
  The column loop calls \<open>read_string\<close>, so it may not return: the result is an
  \<open>option\<close> around the usual sum.
\<close>

fun relation_read_columns ::
  "nat \<Rightarrow> ColumnType list \<Rightarrow> bytes \<Rightarrow> (error + (ColumnType list \<times> bytes)) option" where
  "relation_read_columns 0 cols buf = Some (Inr (cols, buf))"
| "relation_read_columns (Suc k) cols buf =
     (case read_int8 buf of (pkey, buf1) \<Rightarrow>
        (case read_string buf1 of
           None \<Rightarrow> None
         | Some (Inl e) \<Rightarrow> Some (Inl e)
         | Some (Inr (col_name, buf2)) \<Rightarrow>
             (case read_int32 buf2 of (data_type_id, buf3) \<Rightarrow>
                (case read_int32 buf3 of (col_modifier, buf4) \<Rightarrow>
                   relation_read_columns k
                     (cols @ [\<lparr>part_of_pkey = pkey, name = col_name, type_id = data_type_id,
                               atttypmod = col_modifier\<rparr>]) buf4))))"

definition Relation_decode_buffer :: "string \<Rightarrow> bytes \<Rightarrow> (error + Relation) option" where
  "Relation_decode_buffer byte1 buf =
     (if byte1 \<noteq> ''R'' then Some (Inl TagMismatch)
      else case read_int32 buf of (rel_id, buf1) \<Rightarrow>
        (case read_string buf1 of
           None \<Rightarrow> None
         | Some (Inl e) \<Rightarrow> Some (Inl e)
         | Some (Inr (namespace, buf2)) \<Rightarrow>
             (case read_string buf2 of
                None \<Rightarrow> None
              | Some (Inl e) \<Rightarrow> Some (Inl e)
              | Some (Inr (relation_name, buf3)) \<Rightarrow>
                  (case read_utf8 1 buf3 of
                     Inl e \<Rightarrow> Some (Inl e)
                   | Inr (setting, buf4) \<Rightarrow>
                       (case read_int16 buf4 of (n, buf5) \<Rightarrow>
                          (case relation_read_columns (nat n) [] buf5 of
                             None \<Rightarrow> None
                           | Some (Inl e) \<Rightarrow> Some (Inl e)
                           | Some (Inr (cols, buf6)) \<Rightarrow>
                               Some (Inr \<lparr>relation_byte1 = byte1, relation_relation_id = rel_id,
                                          relation_namespace = namespace,
                                          relation_relation_name = relation_name,
                                          relation_replica_identity_setting = setting,
                                          relation_n_columns = n,
                                          relation_columns = cols\<rparr>)))))))"

definition Relation_init :: "bytes \<Rightarrow> (error + Relation) option" where
  "Relation_init buffer =
     (case read_utf8 1 buffer of
        Inl e \<Rightarrow> Some (Inl e)
      | Inr (byte1, buf) \<Rightarrow> Relation_decode_buffer byte1 buf)"

subsubsection \<open>Insert\<close>

definition Insert_decode_buffer :: "string \<Rightarrow> bytes \<Rightarrow> error + Insert" where
  "Insert_decode_buffer byte1 buf =
     (if byte1 \<noteq> ''I'' then Inl TagMismatch
      else case read_int32 buf of (rel_id, buf1) \<Rightarrow>
        (case read_utf8 1 buf1 of
           Inl e \<Rightarrow> Inl e
         | Inr (new_tuple_byte, buf2) \<Rightarrow>
             (case read_tuple_data buf2 of
                Inl e \<Rightarrow> Inl e
              | Inr (new_tuple, buf3) \<Rightarrow>
                  Inr \<lparr>insert_byte1 = byte1, insert_relation_id = rel_id,
                       insert_new_tuple_byte = new_tuple_byte,
                       insert_new_tuple = new_tuple\<rparr>)))"

definition Insert_init :: "bytes \<Rightarrow> error + Insert" where
  "Insert_init buffer =
     (case read_utf8 1 buffer of
        Inl e \<Rightarrow> Inl e
      | Inr (byte1, buf) \<Rightarrow> Insert_decode_buffer byte1 buf)"

subsubsection \<open>Update\<close>

text \<open>
  The two branches of the \<open>if\<close> on \<open>next_byte_identifier\<close> set the optional tuple
  identifier, the old tuple and \<open>new_tuple_byte\<close>; \<open>update_old_part\<close> is that \<open>if\<close>.
\<close>

definition update_old_part ::
  "string \<Rightarrow> bytes \<Rightarrow> error + (string option \<times> TupleData option \<times> string \<times> bytes)" where
  "update_old_part next_byte_identifier buf =
     (if next_byte_identifier = ''K'' \<or> next_byte_identifier = ''O'' then
        (case read_tuple_data buf of
           Inl e \<Rightarrow> Inl e
         | Inr (old_tuple, buf1) \<Rightarrow>
             (case read_utf8 1 buf1 of
                Inl e \<Rightarrow> Inl e
              | Inr (new_tuple_byte, buf2) \<Rightarrow>
                  Inr (Some next_byte_identifier, Some old_tuple, new_tuple_byte, buf2)))
      else Inr (None, None, next_byte_identifier, buf))"

definition Update_decode_buffer :: "string \<Rightarrow> bytes \<Rightarrow> error + Update" where
  "Update_decode_buffer byte1 buf =
     (if byte1 \<noteq> ''U'' then Inl TagMismatch
      else case read_int32 buf of (rel_id, buf1) \<Rightarrow>
        (case read_utf8 1 buf1 of
           Inl e \<Rightarrow> Inl e
         | Inr (next_byte_identifier, buf2) \<Rightarrow>
             (case update_old_part next_byte_identifier buf2 of
                Inl e \<Rightarrow> Inl e
              | Inr (optional_tuple_identifier, old_tuple, new_tuple_byte, buf3) \<Rightarrow>
                  if new_tuple_byte \<noteq> ''N'' then Inl ExpectedNewTupleMarker
                  else
                    (case read_tuple_data buf3 of
                       Inl e \<Rightarrow> Inl e
                     | Inr (new_tuple, buf4) \<Rightarrow>
                         Inr \<lparr>update_byte1 = byte1, update_relation_id = rel_id,
                              update_next_byte_identifier = next_byte_identifier,
                              update_optional_tuple_identifier = optional_tuple_identifier,
                              update_old_tuple = old_tuple,
                              update_new_tuple_byte = new_tuple_byte,
                              update_new_tuple = new_tuple\<rparr>))))"

definition Update_init :: "bytes \<Rightarrow> error + Update" where
  "Update_init buffer =
     (case read_utf8 1 buffer of
        Inl e \<Rightarrow> Inl e
      | Inr (byte1, buf) \<Rightarrow> Update_decode_buffer byte1 buf)"

subsubsection \<open>Delete\<close>

definition Delete_decode_buffer :: "string \<Rightarrow> bytes \<Rightarrow> error + Delete" where
  "Delete_decode_buffer byte1 buf =
     (if byte1 \<noteq> ''D'' then Inl TagMismatch
      else case read_int32 buf of (rel_id, buf1) \<Rightarrow>
        (case read_utf8 1 buf1 of
           Inl e \<Rightarrow> Inl e
         | Inr (message_type, buf2) \<Rightarrow>
             if message_type \<notin> set [''K'', ''O''] then Inl InvalidReplicaIdentityOrMessageTag
             else
               (case read_tuple_data buf2 of
                  Inl e \<Rightarrow> Inl e
                | Inr (old_tuple, buf3) \<Rightarrow>
                    Inr \<lparr>delete_byte1 = byte1, delete_relation_id = rel_id,
                         delete_message_type = message_type,
                         delete_old_tuple = old_tuple\<rparr>)))"

definition Delete_init :: "bytes \<Rightarrow> error + Delete" where
  "Delete_init buffer =
     (case read_utf8 1 buffer of
        Inl e \<Rightarrow> Inl e
      | Inr (byte1, buf) \<Rightarrow> Delete_decode_buffer byte1 buf)"

subsubsection \<open>Truncate\<close>

fun truncate_read_ids :: "nat \<Rightarrow> int list \<Rightarrow> bytes \<Rightarrow> int list \<times> bytes" where
  "truncate_read_ids 0 ids buf = (ids, buf)"
| "truncate_read_ids (Suc k) ids buf =
     (case read_int32 buf of (rel_id, buf1) \<Rightarrow> truncate_read_ids k (ids @ [rel_id]) buf1)"

definition Truncate_decode_buffer :: "string \<Rightarrow> bytes \<Rightarrow> error + Truncate" where
  "Truncate_decode_buffer byte1 buf =
     (if byte1 \<noteq> ''T'' then Inl TagMismatch
      else case read_int32 buf of (number_of_relations, buf1) \<Rightarrow>
        (case read_int8 buf1 of (option_bits, buf2) \<Rightarrow>
           (case truncate_read_ids (nat number_of_relations) [] buf2 of (ids, buf3) \<Rightarrow>
              Inr \<lparr>truncate_byte1 = byte1,
                   truncate_number_of_relations = number_of_relations,
                   truncate_option_bits = option_bits,
                   truncate_relation_ids = ids\<rparr>)))"

definition Truncate_init :: "bytes \<Rightarrow> error + Truncate" where
  "Truncate_init buffer =
     (case read_utf8 1 buffer of
        Inl e \<Rightarrow> Inl e
      | Inr (byte1, buf) \<Rightarrow> Truncate_decode_buffer byte1 buf)"

subsection \<open>The wire form of TupleData\<close>

text \<open>
  The docstring of \<open>read_tuple_data\<close> gives the layout of a TupleData on the wire: an
  Int16 number of columns, then one submessage for each column, which is the byte "n",
  the byte "u", or the byte "t" followed by the Int32 length of the value and the value
  itself. The definitions below write that layout down, as the sender produces it.

  \<open>int_to_bytes w v\<close> is \<open>v.to_bytes(w, byteorder="big", signed=True)\<close>.
\<close>

fun int_to_bytes :: "nat \<Rightarrow> int \<Rightarrow> bytes" where
  "int_to_bytes 0 v = []"
| "int_to_bytes (Suc w) v = int_to_bytes w (v div 256) @ [char_of v]"

definition wire_column :: "ColumnData \<Rightarrow> bytes" where
  "wire_column c =
     (case col_data_category c of None \<Rightarrow> [] | Some category \<Rightarrow> category)
     @ (case col_data_length c of None \<Rightarrow> [] | Some len \<Rightarrow> int_to_bytes 4 len)
     @ (case col_data c of None \<Rightarrow> [] | Some val \<Rightarrow> val)"

definition wire_tuple_data :: "ColumnData list \<Rightarrow> bytes" where
  "wire_tuple_data cols = int_to_bytes 2 (int (length cols)) @ concat (map wire_column cols)"

text \<open>
  A column as the docstring allows it: "n" or "u" with no length and no value, or "t"
  with a value of well-formed UTF-8 and the byte length of the value as its length,
  which an Int32 can hold.
\<close>

definition well_formed_column :: "ColumnData \<Rightarrow> bool" where
  "well_formed_column c =
     (case col_data_category c of
        None \<Rightarrow> False
      | Some category \<Rightarrow>
          if category = ''n'' \<or> category = ''u'' then
            col_data_length c = None \<and> col_data c = None
          else if category = ''t'' then
            (case (col_data_length c, col_data c) of
               (Some len, Some val) \<Rightarrow>
                 len = int (length val) \<and> len < 2 ^ 31 \<and> valid_utf8 val
             | _ \<Rightarrow> False)
          else False)"

fun well_formed_columns :: "ColumnData list \<Rightarrow> bool" where
  "well_formed_columns [] = True"
| "well_formed_columns (c # cs) = (well_formed_column c \<and> well_formed_columns cs)"

subsection \<open>The entry point\<close>

datatype message =
    MBegin Begin
  | MCommit Commit
  | MRelation Relation
  | MInsert Insert
  | MUpdate Update
  | MDelete Delete
  | MTruncate Truncate

text \<open>
  Modelled from the spec: the Dispatcher, the single caller-facing entry point. The
  source file holds the seven message classes and no function that chooses among them.
  The specification (4.3, 4.4, 6): the dispatcher reads exactly one leading byte, maps
  it to a decoder through a table from the tags B, C, R, I, U, D, T, invokes the decoder
  with the remaining buffer and returns the typed message or the first error; a tag
  with no registered decoder is \<open>UnsupportedMessageType\<close>; a read with no byte left is
  \<open>UnexpectedEndOfBuffer\<close>. The decoders invoked are those of the source.
\<close>

definition decode_message :: "bytes \<Rightarrow> (error + message) option" where
  "decode_message buffer =
     (case buffer of
        [] \<Rightarrow> Some (Inl UnexpectedEndOfBuffer)
      | tag # buf \<Rightarrow>
          if tag = CHR ''B'' then Some (map_sum id MBegin (Begin_decode_buffer [tag] buf))
          else if tag = CHR ''C'' then Some (map_sum id MCommit (Commit_decode_buffer [tag] buf))
          else if tag = CHR ''R'' then
            map_option (map_sum id MRelation) (Relation_decode_buffer [tag] buf)
          else if tag = CHR ''I'' then Some (map_sum id MInsert (Insert_decode_buffer [tag] buf))
          else if tag = CHR ''U'' then Some (map_sum id MUpdate (Update_decode_buffer [tag] buf))
          else if tag = CHR ''D'' then Some (map_sum id MDelete (Delete_decode_buffer [tag] buf))
          else if tag = CHR ''T'' then
            Some (map_sum id MTruncate (Truncate_decode_buffer [tag] buf))
          else Some (Inl UnsupportedMessageType))"

section \<open>Properties\<close>

subsection \<open>Reading bytes, integers and text\<close>

lemmas width_defs = INT8_def INT16_def INT32_def INT64_def

lemmas read_int_defs = read_int8_def read_int16_def read_int32_def read_int64_def

lemma read_utf8_one_nil: "read_utf8 1 [] = Inr ([], [])"
  by (simp add: read_utf8_def buffer_read_def convert_bytes_to_utf8_def)

lemma valid_utf8_single: "valid_utf8 [c] = ((of_char c :: nat) < 128)"
  by (simp add: in_range_def)

lemma read_utf8_one_cons:
  "read_utf8 1 (c # rest) =
     (if (of_char c :: nat) < 128 then Inr ([c], rest) else Inl InvalidEncoding)"
  by (simp add: read_utf8_def buffer_read_def convert_bytes_to_utf8_def valid_utf8_single)

lemma big_endian_snoc: "big_endian (bs @ [b]) = big_endian bs * 256 + of_char b"
  by (simp add: big_endian_def)

lemma of_char_int_bounds: "0 \<le> (of_char c :: int) \<and> (of_char c :: int) < 256"
proof -
  have "(of_char c :: int) = int (of_char c)" by (simp add: of_char_def)
  moreover have "(of_char c :: nat) < 256" by simp
  ultimately show ?thesis by simp
qed

lemma big_endian_bounds: "0 \<le> big_endian bs \<and> big_endian bs < 2 ^ (8 * length bs)"
proof (induction bs rule: rev_induct)
  case Nil
  show ?case by (simp add: big_endian_def)
next
  case (snoc b bs)
  have c: "0 \<le> (of_char b :: int) \<and> (of_char b :: int) < 256" by (rule of_char_int_bounds)
  have "big_endian bs + 1 \<le> 2 ^ (8 * length bs)" using snoc.IH by simp
  then have "(big_endian bs + 1) * 256 \<le> 2 ^ (8 * length bs) * 256" by simp
  moreover have "(2::int) ^ (8 * length (bs @ [b])) = 2 ^ (8 * length bs) * 256"
    by (simp add: power_add)
  ultimately show ?case using snoc.IH c by (simp add: big_endian_snoc algebra_simps)
qed

lemma big_endian_cons: "big_endian (b # bs) = of_char b * 2 ^ (8 * length bs) + big_endian bs"
proof (induction bs rule: rev_induct)
  case Nil
  show ?case by (simp add: big_endian_def)
next
  case (snoc x xs)
  have "big_endian (b # xs @ [x]) = big_endian ((b # xs) @ [x])" by simp
  also have "\<dots> = big_endian (b # xs) * 256 + of_char x" by (rule big_endian_snoc)
  finally show ?case using snoc.IH by (simp add: big_endian_snoc power_add algebra_simps)
qed

lemma convert_bytes_to_int_bounds:
  "bs \<noteq> [] \<Longrightarrow> - (2 ^ (8 * length bs - 1)) \<le> convert_bytes_to_int bs
     \<and> convert_bytes_to_int bs < 2 ^ (8 * length bs - 1)"
proof (cases bs)
  case Nil
  assume "bs \<noteq> []" with Nil show ?thesis by simp
next
  case (Cons b r)
  define P :: int where "P = 2 ^ (8 * length r)"
  have tail: "0 \<le> big_endian r" "big_endian r < P"
    using big_endian_bounds [of r] by (simp_all add: P_def)
  have c: "0 \<le> (of_char b :: int)" "(of_char b :: int) \<le> 255"
    using of_char_int_bounds [of b] by simp_all
  have p: "(2::int) ^ (8 * length bs) = 256 * P" "(2::int) ^ (8 * length bs - 1) = 128 * P"
    using Cons by (simp_all add: power_add P_def)
  have pos: "0 < P" by (simp add: P_def)
  have hd: "big_endian bs = of_char b * P + big_endian r"
    using Cons by (simp add: big_endian_cons P_def)
  show ?thesis
  proof (cases "(128::int) \<le> of_char b")
    case True
    then have v: "convert_bytes_to_int bs = of_char b * P + big_endian r - 256 * P"
      using Cons p hd by (simp add: convert_bytes_to_int_def)
    have "128 * P \<le> of_char b * P" using True pos by simp
    moreover have "of_char b * P \<le> 255 * P" using c pos by simp
    ultimately show ?thesis unfolding v p using tail by linarith
  next
    case False
    then have v: "convert_bytes_to_int bs = of_char b * P + big_endian r"
      using Cons hd by (simp add: convert_bytes_to_int_def)
    have "of_char b * P \<le> 127 * P" using False pos by simp
    moreover have "0 \<le> of_char b * P" using c pos by simp
    ultimately show ?thesis unfolding v p using tail by linarith
  qed
qed

text \<open>
  The value agrees with the two's-complement reading of the library: the unsigned
  big-endian value, sign-extended from bit \<open>8 * len - 1\<close>.
\<close>

lemma convert_bytes_to_int_signed_take_bit:
  assumes "bs \<noteq> []"
  shows "convert_bytes_to_int bs = signed_take_bit (8 * length bs - 1) (big_endian bs)"
proof -
  define n where "n = 8 * length bs - 1"
  have sn: "Suc n = 8 * length bs" using assms by (cases bs) (simp_all add: n_def)
  have b: "- (2 ^ n) \<le> convert_bytes_to_int bs" "convert_bytes_to_int bs < 2 ^ n"
    using convert_bytes_to_int_bounds [OF assms] by (simp_all add: n_def)
  have "take_bit (Suc n) (convert_bytes_to_int bs) = take_bit (Suc n) (big_endian bs)"
    by (simp add: convert_bytes_to_int_def take_bit_eq_mod sn)
  then have "signed_take_bit n (convert_bytes_to_int bs) = signed_take_bit n (big_endian bs)"
    by (simp add: signed_take_bit_eq_iff_take_bit_eq)
  moreover have "signed_take_bit n (convert_bytes_to_int bs) = convert_bytes_to_int bs"
    using b by (simp add: signed_take_bit_int_eq_self)
  ultimately show ?thesis by (simp add: n_def)
qed

lemma pg_epoch_value: "pg_epoch = 63082281600000000"
  by (simp add: pg_epoch_def mk_datetime_def ymd2ord_def days_before_year_def days_before_month_def)

lemma datetime_max_value: "datetime_max = 315537897599999999"
  by (simp add: datetime_max_def mk_datetime_def ymd2ord_def days_before_year_def
      days_before_month_def is_leap_def)

lemma convert_bytes_to_int_short:
  assumes "length bs < 8"
  shows "- (2 ^ 55) \<le> convert_bytes_to_int bs \<and> convert_bytes_to_int bs < 2 ^ 55"
proof (cases "bs = []")
  case True
  then show ?thesis by (simp add: convert_bytes_to_int_def big_endian_def)
next
  case False
  then have "0 < length bs" by simp
  with assms have "8 * length bs - 1 \<le> 55" by simp
  then have "(2::int) ^ (8 * length bs - 1) \<le> 2 ^ 55"
    by (rule power_increasing) simp
  with convert_bytes_to_int_bounds [OF False] show ?thesis by linarith
qed

lemma read_timestamp_short:
  assumes "length buf < 8"
  shows "read_timestamp buf = Inr (pg_epoch + convert_bytes_to_int buf, [])"
proof -
  have r: "read_int64 buf = (convert_bytes_to_int buf, [])"
    using assms by (simp add: read_int64_def buffer_read_def INT64_def)
  have "0 \<le> pg_epoch + convert_bytes_to_int buf
        \<and> pg_epoch + convert_bytes_to_int buf \<le> datetime_max"
    using convert_bytes_to_int_short [OF assms] by (simp add: pg_epoch_value datetime_max_value)
  then show ?thesis by (simp add: read_timestamp_def r convert_pg_ts_def Let_def)
qed

text \<open>
  Claim C1, as the code has it. No read primitive checks how many bytes are left, and
  none fails with \<open>UnexpectedEndOfBuffer\<close>. On a buffer with fewer bytes than the read
  asks for, \<open>read_int8\<close>, \<open>read_int16\<close>, \<open>read_int32\<close> and \<open>read_int64\<close> succeed with
  the big-endian two's-complement value of the bytes that are left (0 when none is
  left), \<open>read_timestamp\<close> succeeds with the epoch plus that value, and \<open>read_utf8 n\<close>
  returns the bytes that are left as text, shorter than \<open>n\<close>, or fails with
  \<open>InvalidEncoding\<close> when they are not well-formed UTF-8. Each of these reads
  consumes the rest of the buffer.
\<close>

theorem read_truncated_buffer:
  "(length buf < 1 \<longrightarrow> read_int8 buf = (convert_bytes_to_int buf, []))
   \<and> (length buf < 2 \<longrightarrow> read_int16 buf = (convert_bytes_to_int buf, []))
   \<and> (length buf < 4 \<longrightarrow> read_int32 buf = (convert_bytes_to_int buf, []))
   \<and> (length buf < 8 \<longrightarrow> read_int64 buf = (convert_bytes_to_int buf, []))
   \<and> (length buf < 8 \<longrightarrow> read_timestamp buf = Inr (pg_epoch + convert_bytes_to_int buf, []))
   \<and> (int (length buf) < n \<longrightarrow>
        read_utf8 n buf = (if valid_utf8 buf then Inr (buf, []) else Inl InvalidEncoding))"
  by (simp add: read_int_defs width_defs buffer_read_def read_timestamp_short read_utf8_def
      convert_bytes_to_utf8_def)

theorem read_truncated_buffer_witness:
  "read_int8 [] = (0, [])
   \<and> read_int16 [CHR 0x01] = (1, [])
   \<and> read_int32 [CHR 0x01] = (1, [])
   \<and> read_int64 [CHR 0x01] = (1, [])
   \<and> read_timestamp [CHR 0x01] = Inr (pg_epoch + 1, [])
   \<and> read_utf8 4 ''ab'' = Inr (''ab'', [])"
proof -
  have c: "convert_bytes_to_int [] = 0" "convert_bytes_to_int [CHR 0x01] = 1"
    by (simp_all add: convert_bytes_to_int_def big_endian_def)
  show ?thesis
    using read_truncated_buffer [of "[]" 0] read_truncated_buffer [of "[CHR 0x01]" 0]
      read_truncated_buffer [of "''ab''" 4]
    by (simp add: c)
qed

text \<open>
  Claim C1 as stated fails: on truncated buffers \<open>read_int32\<close>, \<open>read_utf8 4\<close> and
  \<open>read_timestamp\<close> return a value, and none of them fails with
  \<open>UnexpectedEndOfBuffer\<close>.
\<close>

theorem read_truncated_counterexample:
  "read_int32 [CHR 0x01] = (1, [])
   \<and> read_utf8 4 ''ab'' = Inr (''ab'', [])
   \<and> read_utf8 4 ''ab'' \<noteq> Inl UnexpectedEndOfBuffer
   \<and> read_timestamp [] = Inr (pg_epoch, [])
   \<and> read_timestamp [] \<noteq> Inl UnexpectedEndOfBuffer"
  by (simp add: read_int_defs width_defs buffer_read_def read_utf8_def convert_bytes_to_utf8_def
      convert_bytes_to_int_def big_endian_def read_timestamp_def convert_pg_ts_def Let_def
      pg_epoch_value datetime_max_value)

subsection \<open>The null-terminated string reader\<close>

lemma read_string_loop_returns_zero:
  assumes "read_string_loop out buf = Some r"
  shows "CHR 0x00 \<in> set buf"
proof (rule read_string_loop.raw_induct [where P = "\<lambda>_ b _. CHR 0x00 \<in> set b", OF _ assms],
    goal_cases)
  case (1 f out buf r)
  show ?case
  proof (cases buf)
    case Nil
    with 1(2) have "f out [] = Some r" by (simp add: buffer_read_def)
    from 1(1) [OF this] show ?thesis by simp
  next
    case (Cons c cs)
    show ?thesis
    proof (cases "c = CHR 0x00")
      case True
      with Cons show ?thesis by simp
    next
      case False
      with 1(2) Cons have "f (out @ [c]) cs = Some r" by (simp add: buffer_read_def)
      from 1(1) [OF this] Cons show ?thesis by simp
    qed
  qed
qed

lemma read_string_unterminated: "CHR 0x00 \<notin> set buf \<Longrightarrow> read_string buf = None"
proof -
  assume z: "CHR 0x00 \<notin> set buf"
  have "read_string_loop [] buf = None"
  proof (cases "read_string_loop [] buf")
    case (Some r)
    from read_string_loop_returns_zero [OF this] z show ?thesis by simp
  qed simp
  then show ?thesis by (simp add: read_string_def)
qed

lemma read_string_loop_terminated:
  "CHR 0x00 \<notin> set pre \<Longrightarrow>
     read_string_loop out (pre @ CHR 0x00 # rest) = Some (out @ pre, rest)"
proof (induction pre arbitrary: out)
  case Nil
  show ?case by (subst read_string_loop.simps) (simp add: buffer_read_def)
next
  case (Cons c cs)
  then show ?case by (subst read_string_loop.simps) (auto simp add: buffer_read_def)
qed

lemma read_string_terminated:
  "CHR 0x00 \<notin> set pre \<Longrightarrow>
     read_string (pre @ CHR 0x00 # rest) =
       Some (if valid_utf8 pre then Inr (pre, rest) else Inl InvalidEncoding)"
  by (simp add: read_string_def read_string_loop_terminated convert_bytes_to_utf8_def)

text \<open>
  Claim C2 at a failing input. \<open>None\<close> is the value of a call that never returns:
  \<open>read_string\<close> on the unterminated buffer "abc" does not return, and neither does the
  Relation decoder on a buffer whose namespace has no terminator.
\<close>

theorem read_string_no_terminator:
  "read_string ''abc'' = None
   \<and> Relation_init ([CHR ''R'', CHR 0x00, CHR 0x00, CHR 0x00, CHR 0x01] @ ''abc'') = None"
proof -
  have a: "read_string ''abc'' = None" by (rule read_string_unterminated) simp
  have "read_utf8 1 ([CHR ''R'', CHR 0x00, CHR 0x00, CHR 0x00, CHR 0x01] @ ''abc'')
          = Inr (''R'', [CHR 0x00, CHR 0x00, CHR 0x00, CHR 0x01] @ ''abc'')"
    by (simp add: read_utf8_one_cons)
  then have "Relation_init ([CHR ''R'', CHR 0x00, CHR 0x00, CHR 0x00, CHR 0x01] @ ''abc'') = None"
    by (simp add: Relation_init_def Relation_decode_buffer_def read_int32_def INT32_def
        buffer_read_def a)
  with a show ?thesis by simp
qed

subsection \<open>TupleData\<close>

lemmas eval_defs = read_int_defs width_defs buffer_read_def read_utf8_def
  convert_bytes_to_utf8_def convert_bytes_to_int_def big_endian_def in_range_def

text \<open>
  Claim C3 at a failing input: a TupleData of one column whose tag is "x". The column is
  skipped, the decode succeeds with \<open>n_columns = 1\<close> and no column, and no error is
  raised.
\<close>

theorem read_tuple_data_unknown_tag:
  "read_tuple_data [CHR 0x00, CHR 0x01, CHR ''x'']
     = Inr (\<lparr>n_columns = 1, column_data = []\<rparr>, [])"
  by (simp add: read_tuple_data_def eval_defs)

text \<open>
  Claim C5 at a failing input: an Insert buffer whose byte after the relation id is "X".
  The decode returns an Insert message with \<open>new_tuple_byte = "X"\<close>.
\<close>

theorem Insert_tag_not_checked:
  "Insert_init [CHR ''I'', CHR 0x00, CHR 0x00, CHR 0x00, CHR 0x01, CHR ''X'', CHR 0x00, CHR 0x00]
     = Inr \<lparr>insert_byte1 = ''I'', insert_relation_id = 1, insert_new_tuple_byte = ''X'',
            insert_new_tuple = \<lparr>n_columns = 0, column_data = []\<rparr>\<rparr>"
  by (simp add: Insert_init_def Insert_decode_buffer_def read_tuple_data_def eval_defs)

text \<open>
  Claim C10. A negative count gives zero iterations: \<open>read_tuple_data\<close> on a buffer
  whose Int16 count is negative succeeds with no column, consumes the count only and
  keeps the negative count; the Truncate decoder on a buffer whose Int32 count is
  negative succeeds with no relation id and keeps the negative count.
\<close>

theorem negative_count_gives_empty_list:
  "(fst (read_int16 buf) < 0 \<longrightarrow>
      read_tuple_data buf
        = Inr (\<lparr>n_columns = fst (read_int16 buf), column_data = []\<rparr>, snd (read_int16 buf)))
   \<and> (fst (read_int32 buf) < 0 \<longrightarrow>
      Truncate_init (CHR ''T'' # buf)
        = Inr \<lparr>truncate_byte1 = ''T'',
               truncate_number_of_relations = fst (read_int32 buf),
               truncate_option_bits = fst (read_int8 (snd (read_int32 buf))),
               truncate_relation_ids = []\<rparr>)"
  by (simp add: read_tuple_data_def Truncate_init_def Truncate_decode_buffer_def
      read_utf8_one_cons split: prod.splits)

theorem negative_count_gives_empty_list_witness:
  "read_tuple_data [CHR 0xFF, CHR 0xFE, CHR ''n'']
     = Inr (\<lparr>n_columns = - 2, column_data = []\<rparr>, ''n'')
   \<and> Truncate_init [CHR ''T'', CHR 0xFF, CHR 0xFF, CHR 0xFF, CHR 0xFD, CHR 0x01, CHR 0x00]
     = Inr \<lparr>truncate_byte1 = ''T'', truncate_number_of_relations = - 3,
            truncate_option_bits = 1, truncate_relation_ids = []\<rparr>"
proof -
  have a: "read_int16 [CHR 0xFF, CHR 0xFE, CHR ''n''] = (- 2, ''n'')"
    by (simp add: eval_defs)
  have b: "read_int32 [CHR 0xFF, CHR 0xFF, CHR 0xFF, CHR 0xFD, CHR 0x01, CHR 0x00]
             = (- 3, [CHR 0x01, CHR 0x00])"
    by (simp add: eval_defs)
  have c: "read_int8 [CHR 0x01, CHR 0x00] = (1, [CHR 0x00])"
    by (simp add: eval_defs)
  show ?thesis
    using negative_count_gives_empty_list [of "[CHR 0xFF, CHR 0xFE, CHR ''n'']"]
      negative_count_gives_empty_list [of "[CHR 0xFF, CHR 0xFF, CHR 0xFF, CHR 0xFD, CHR 0x01, CHR 0x00]"]
    by (simp add: a b c)
qed

subsection \<open>Delete\<close>

lemma read_int32_four:
  "read_int32 (a # b # c # d # rest) = (convert_bytes_to_int [a, b, c, d], rest)"
  by (simp add: read_int32_def INT32_def buffer_read_def)

lemma read_tuple_data_no_columns:
  "read_tuple_data (CHR 0x00 # CHR 0x00 # rest) = Inr (\<lparr>n_columns = 0, column_data = []\<rparr>, rest)"
  by (simp add: read_tuple_data_def eval_defs)

lemma convert_bytes_to_int_one:
  "convert_bytes_to_int [CHR 0x00, CHR 0x00, CHR 0x00, CHR 0x01] = 1"
  by (simp add: eval_defs)

text \<open>
  Claim C7, as the code has it. The byte after the relation id is read as UTF-8 text
  of one byte before it is compared. If it is "K" or "O", exactly one TupleData is
  decoded, as the old tuple. If it is another byte below 0x80, or the buffer ends
  before it, the decode fails with \<open>InvalidReplicaIdentityOrMessageTag\<close>. If it is a
  byte from 0x80 up, the decode fails with \<open>InvalidEncoding\<close> at the read.
\<close>

theorem Delete_tag_byte:
  "Delete_init (CHR ''D'' # a # b # c # d # tag # rest) =
     (if tag = CHR ''K'' \<or> tag = CHR ''O'' then
        (case read_tuple_data rest of
           Inl e \<Rightarrow> Inl e
         | Inr (old_tuple, rest') \<Rightarrow>
             Inr \<lparr>delete_byte1 = ''D'', delete_relation_id = convert_bytes_to_int [a, b, c, d],
                  delete_message_type = [tag], delete_old_tuple = old_tuple\<rparr>)
      else if (of_char tag :: nat) < 128 then Inl InvalidReplicaIdentityOrMessageTag
      else Inl InvalidEncoding)
   \<and> Delete_init [CHR ''D'', a, b, c, d] = Inl InvalidReplicaIdentityOrMessageTag"
  by (auto simp add: Delete_init_def Delete_decode_buffer_def read_utf8_one_cons
      read_utf8_one_nil read_int32_four split: sum.splits prod.splits)

theorem Delete_tag_byte_witness:
  "Delete_init [CHR ''D'', CHR 0x00, CHR 0x00, CHR 0x00, CHR 0x01, CHR ''O'', CHR 0x00, CHR 0x00]
     = Inr \<lparr>delete_byte1 = ''D'', delete_relation_id = 1, delete_message_type = ''O'',
            delete_old_tuple = \<lparr>n_columns = 0, column_data = []\<rparr>\<rparr>
   \<and> Delete_init [CHR ''D'', CHR 0x00, CHR 0x00, CHR 0x00, CHR 0x01, CHR ''N'', CHR 0x00, CHR 0x00]
     = Inl InvalidReplicaIdentityOrMessageTag"
  using
    Delete_tag_byte [of "CHR 0x00" "CHR 0x00" "CHR 0x00" "CHR 0x01" "CHR ''O''"
      "[CHR 0x00, CHR 0x00]"]
    Delete_tag_byte [of "CHR 0x00" "CHR 0x00" "CHR 0x00" "CHR 0x01" "CHR ''N''"
      "[CHR 0x00, CHR 0x00]"]
  by (simp add: read_tuple_data_no_columns convert_bytes_to_int_one)

text \<open>
  Claim C7 as stated fails: the tag byte 0xFF is neither "K" nor "O", and the decode
  fails with \<open>InvalidEncoding\<close>, not with \<open>InvalidReplicaIdentityOrMessageTag\<close>.
\<close>

theorem Delete_tag_byte_counterexample:
  "Delete_init [CHR ''D'', CHR 0x00, CHR 0x00, CHR 0x00, CHR 0x01, CHR 0xFF, CHR 0x00, CHR 0x00]
     = Inl InvalidEncoding
   \<and> Delete_init [CHR ''D'', CHR 0x00, CHR 0x00, CHR 0x00, CHR 0x01, CHR 0xFF, CHR 0x00, CHR 0x00]
     \<noteq> Inl InvalidReplicaIdentityOrMessageTag"
  by (simp add: Delete_init_def Delete_decode_buffer_def read_utf8_one_cons read_int32_four)

subsection \<open>Update\<close>

text \<open>
  Claim C6, as the code has it. Every tag byte is read as UTF-8 text of one byte
  before it is compared. If the byte after the relation id is "K" or "O", it is
  recorded as the optional tuple identifier and one TupleData is decoded as the old
  tuple; the byte after that tuple must be "N": when it is another byte below 0x80, or
  the buffer has ended, the decode fails with \<open>ExpectedNewTupleMarker\<close>, and when it
  is a byte from 0x80 up the decode fails with \<open>InvalidEncoding\<close> at the read. If the
  byte after the relation id is "N", the old tuple and the optional tuple identifier
  are none. On both paths exactly one TupleData is then decoded, as the new tuple.
\<close>

theorem Update_grammar:
  "((tag = CHR ''K'' \<or> tag = CHR ''O'') \<longrightarrow>
      Update_init (CHR ''U'' # a # b # c # d # tag # rest) =
        (case read_tuple_data rest of
           Inl e \<Rightarrow> Inl e
         | Inr (old_tuple, rest1) \<Rightarrow>
             (case rest1 of
                [] \<Rightarrow> Inl ExpectedNewTupleMarker
              | marker # rest2 \<Rightarrow>
                  if marker = CHR ''N'' then
                    (case read_tuple_data rest2 of
                       Inl e \<Rightarrow> Inl e
                     | Inr (new_tuple, rest3) \<Rightarrow>
                         Inr \<lparr>update_byte1 = ''U'',
                              update_relation_id = convert_bytes_to_int [a, b, c, d],
                              update_next_byte_identifier = [tag],
                              update_optional_tuple_identifier = Some [tag],
                              update_old_tuple = Some old_tuple,
                              update_new_tuple_byte = ''N'',
                              update_new_tuple = new_tuple\<rparr>)
                  else if (of_char marker :: nat) < 128 then Inl ExpectedNewTupleMarker
                  else Inl InvalidEncoding)))
   \<and> Update_init (CHR ''U'' # a # b # c # d # CHR ''N'' # rest) =
        (case read_tuple_data rest of
           Inl e \<Rightarrow> Inl e
         | Inr (new_tuple, rest1) \<Rightarrow>
             Inr \<lparr>update_byte1 = ''U'',
                  update_relation_id = convert_bytes_to_int [a, b, c, d],
                  update_next_byte_identifier = ''N'',
                  update_optional_tuple_identifier = None,
                  update_old_tuple = None,
                  update_new_tuple_byte = ''N'',
                  update_new_tuple = new_tuple\<rparr>)"
  by (auto simp add: Update_init_def Update_decode_buffer_def update_old_part_def
      read_utf8_one_cons read_utf8_one_nil read_int32_four
      split: sum.splits prod.splits list.splits)

theorem Update_grammar_witness:
  "Update_init [CHR ''U'', CHR 0x00, CHR 0x00, CHR 0x00, CHR 0x01, CHR ''K'', CHR 0x00, CHR 0x00,
                CHR ''N'', CHR 0x00, CHR 0x00]
     = Inr \<lparr>update_byte1 = ''U'', update_relation_id = 1, update_next_byte_identifier = ''K'',
            update_optional_tuple_identifier = Some ''K'',
            update_old_tuple = Some \<lparr>n_columns = 0, column_data = []\<rparr>,
            update_new_tuple_byte = ''N'',
            update_new_tuple = \<lparr>n_columns = 0, column_data = []\<rparr>\<rparr>
   \<and> Update_init [CHR ''U'', CHR 0x00, CHR 0x00, CHR 0x00, CHR 0x01, CHR ''O'', CHR 0x00, CHR 0x00,
                  CHR ''X'']
     = Inl ExpectedNewTupleMarker
   \<and> Update_init [CHR ''U'', CHR 0x00, CHR 0x00, CHR 0x00, CHR 0x01, CHR ''N'', CHR 0x00, CHR 0x00]
     = Inr \<lparr>update_byte1 = ''U'', update_relation_id = 1, update_next_byte_identifier = ''N'',
            update_optional_tuple_identifier = None, update_old_tuple = None,
            update_new_tuple_byte = ''N'',
            update_new_tuple = \<lparr>n_columns = 0, column_data = []\<rparr>\<rparr>"
  using
    Update_grammar [of "CHR ''K''" "CHR 0x00" "CHR 0x00" "CHR 0x00" "CHR 0x01"
      "[CHR 0x00, CHR 0x00, CHR ''N'', CHR 0x00, CHR 0x00]"]
    Update_grammar [of "CHR ''O''" "CHR 0x00" "CHR 0x00" "CHR 0x00" "CHR 0x01"
      "[CHR 0x00, CHR 0x00, CHR ''X'']"]
    Update_grammar [of "CHR ''K''" "CHR 0x00" "CHR 0x00" "CHR 0x00" "CHR 0x01"
      "[CHR 0x00, CHR 0x00]"]
  by (simp add: read_tuple_data_no_columns convert_bytes_to_int_one)

text \<open>
  Claim C6 as stated fails: after the identifier "K" and an old tuple, the byte 0xFF is
  not "N", and the decode fails with \<open>InvalidEncoding\<close>, not with
  \<open>ExpectedNewTupleMarker\<close>.
\<close>

theorem Update_grammar_counterexample:
  "Update_init [CHR ''U'', CHR 0x00, CHR 0x00, CHR 0x00, CHR 0x01, CHR ''K'', CHR 0x00, CHR 0x00,
                CHR 0xFF, CHR 0x00, CHR 0x00]
     = Inl InvalidEncoding
   \<and> Update_init [CHR ''U'', CHR 0x00, CHR 0x00, CHR 0x00, CHR 0x01, CHR ''K'', CHR 0x00, CHR 0x00,
                  CHR 0xFF, CHR 0x00, CHR 0x00]
     \<noteq> Inl ExpectedNewTupleMarker"
  by (simp add: Update_init_def Update_decode_buffer_def update_old_part_def
      read_utf8_one_cons read_int32_four read_tuple_data_no_columns)

subsection \<open>Begin\<close>

lemma read_int64_at:
  "8 \<le> length buf \<Longrightarrow> read_int64 buf = (convert_bytes_to_int (take 8 buf), drop 8 buf)"
  by (simp add: read_int64_def INT64_def buffer_read_def)

text \<open>
  Claim C8, as the code has it. For every buffer of at least 25 bytes whose first byte
  is "B": when the epoch 2000-01-01T00:00:00 UTC plus the signed microsecond count at
  bytes 9 to 16 lies in the range of \<open>datetime\<close>, from 0001-01-01T00:00:00 to
  9999-12-31T23:59:59.999999, the decode succeeds, \<open>lsn\<close> and \<open>tx_xid\<close> are the
  big-endian two's-complement integers at bytes 1 to 8 and 17 to 24, and \<open>commit_ts\<close>
  is that sum; otherwise the decode fails with the \<open>OverflowError\<close> of the addition.
\<close>

theorem Begin_fields:
  assumes "25 \<le> length buf" and "hd buf = CHR ''B''"
  shows "Begin_init buf =
     (let us = convert_bytes_to_int (take 8 (drop 9 buf))
      in if 0 \<le> pg_epoch + us \<and> pg_epoch + us \<le> datetime_max then
           Inr \<lparr>begin_byte1 = ''B'',
                begin_lsn = convert_bytes_to_int (take 8 (drop 1 buf)),
                begin_commit_ts = pg_epoch + us,
                begin_tx_xid = convert_bytes_to_int (take 8 (drop 17 buf))\<rparr>
         else Inl DateOutOfRange)"
proof -
  from assms obtain rest where buf: "buf = CHR ''B'' # rest" and len: "24 \<le> length rest"
    by (cases buf) auto
  have d: "drop 8 (drop 8 rest) = drop 16 rest" by simp
  show ?thesis
    using len
    by (simp add: buf Begin_init_def Begin_decode_buffer_def read_utf8_one_cons
        read_int64_at read_timestamp_def convert_pg_ts_def Let_def d)
qed

theorem Begin_fields_witness:
  "Begin_init
     ([CHR ''B'',
       CHR 0x00, CHR 0x00, CHR 0x00, CHR 0x00, CHR 0x00, CHR 0x00, CHR 0x00, CHR 0x64,
       CHR 0x00, CHR 0x03, CHR 0x5D, CHR 0x15, CHR 0x59, CHR 0x0F, CHR 0x40, CHR 0x00,
       CHR 0xFF, CHR 0xFF, CHR 0xFF, CHR 0xFF, CHR 0xFF, CHR 0xFF, CHR 0xFD, CHR 0xD5])
     = Inr \<lparr>begin_byte1 = ''B'', begin_lsn = 100,
            begin_commit_ts = mk_datetime 2030 1 1 0 0 0 0,
            begin_tx_xid = - 555\<rparr>"
  using Begin_fields [of
     "[CHR ''B'',
       CHR 0x00, CHR 0x00, CHR 0x00, CHR 0x00, CHR 0x00, CHR 0x00, CHR 0x00, CHR 0x64,
       CHR 0x00, CHR 0x03, CHR 0x5D, CHR 0x15, CHR 0x59, CHR 0x0F, CHR 0x40, CHR 0x00,
       CHR 0xFF, CHR 0xFF, CHR 0xFF, CHR 0xFF, CHR 0xFF, CHR 0xFF, CHR 0xFD, CHR 0xD5]"]
  by (simp add: convert_bytes_to_int_def big_endian_def pg_epoch_value datetime_max_value
      mk_datetime_def ymd2ord_def days_before_year_def days_before_month_def)

text \<open>
  Claim C8 as stated fails: a Begin buffer of 25 bytes whose microsecond count is
  \<open>2^63 - 1\<close> has no \<open>commit_ts\<close>; the sum lies beyond the year 9999 and the decode
  fails.
\<close>

theorem Begin_fields_counterexample:
  "Begin_init
     ([CHR ''B'',
       CHR 0x00, CHR 0x00, CHR 0x00, CHR 0x00, CHR 0x00, CHR 0x00, CHR 0x00, CHR 0x64,
       CHR 0x7F, CHR 0xFF, CHR 0xFF, CHR 0xFF, CHR 0xFF, CHR 0xFF, CHR 0xFF, CHR 0xFF,
       CHR 0x00, CHR 0x00, CHR 0x00, CHR 0x00, CHR 0x00, CHR 0x00, CHR 0x02, CHR 0x2B])
     = Inl DateOutOfRange"
  by (simp add: Begin_init_def Begin_decode_buffer_def read_utf8_one_cons read_int64_at
      read_timestamp_def convert_pg_ts_def Let_def convert_bytes_to_int_def big_endian_def
      pg_epoch_value datetime_max_value)

subsection \<open>The entry point\<close>

text \<open>
  Claim C9, on the dispatcher modelled from the specification. For every buffer whose
  leading byte is none of B, C, R, I, U, D, T, the entry point returns
  \<open>UnsupportedMessageType\<close>; it returns, and it returns no message.
\<close>

theorem decode_message_unsupported:
  "tag \<notin> set ''BCRIUDT'' \<Longrightarrow> decode_message (tag # rest) = Some (Inl UnsupportedMessageType)"
  by (simp add: decode_message_def)

theorem decode_message_unsupported_witness:
  "decode_message (CHR ''O'' # [CHR 0x00, CHR 0x01]) = Some (Inl UnsupportedMessageType)
   \<and> decode_message (CHR ''Y'' # []) = Some (Inl UnsupportedMessageType)
   \<and> decode_message [CHR 0xFF] = Some (Inl UnsupportedMessageType)"
  using decode_message_unsupported [of "CHR ''O''" "[CHR 0x00, CHR 0x01]"]
    decode_message_unsupported [of "CHR ''Y''" "[]"]
    decode_message_unsupported [of "CHR 0xFF" "[]"]
  by simp

lemma decode_message_supported:
  "decode_message (CHR ''B'' # rest) = Some (map_sum id MBegin (Begin_init (CHR ''B'' # rest)))"
  "decode_message (CHR ''C'' # rest) = Some (map_sum id MCommit (Commit_init (CHR ''C'' # rest)))"
  "decode_message (CHR ''R'' # rest)
     = map_option (map_sum id MRelation) (Relation_init (CHR ''R'' # rest))"
  "decode_message (CHR ''I'' # rest) = Some (map_sum id MInsert (Insert_init (CHR ''I'' # rest)))"
  "decode_message (CHR ''U'' # rest) = Some (map_sum id MUpdate (Update_init (CHR ''U'' # rest)))"
  "decode_message (CHR ''D'' # rest) = Some (map_sum id MDelete (Delete_init (CHR ''D'' # rest)))"
  "decode_message (CHR ''T'' # rest)
     = Some (map_sum id MTruncate (Truncate_init (CHR ''T'' # rest)))"
  by (simp_all add: decode_message_def Begin_init_def Commit_init_def Relation_init_def
      Insert_init_def Update_init_def Delete_init_def Truncate_init_def read_utf8_one_cons)

subsection \<open>Decoding the wire form of TupleData\<close>

lemma length_int_to_bytes: "length (int_to_bytes w v) = w"
  by (induction w arbitrary: v) simp_all

lemma of_char_char_of_int: "(of_char (char_of (v::int)) :: int) = v mod 256"
  by simp

lemma big_endian_int_to_bytes: "big_endian (int_to_bytes w v) = v mod 2 ^ (8 * w)"
proof (induction w arbitrary: v)
  case 0
  show ?case by (simp add: big_endian_def)
next
  case (Suc w)
  have "v mod (256 * 2 ^ (8 * w)) = 256 * (v div 256 mod 2 ^ (8 * w)) + v mod 256"
    by (rule zmod_zmult2_eq) simp
  moreover have "(2::int) ^ (8 * Suc w) = 256 * 2 ^ (8 * w)" by (simp add: power_add)
  ultimately show ?case by (simp add: big_endian_snoc Suc.IH)
qed

lemma hd_int_to_bytes:
  "0 < w \<Longrightarrow> (of_char (hd (int_to_bytes w v)) :: int) = v div 2 ^ (8 * (w - 1)) mod 256"
proof (induction w arbitrary: v)
  case 0
  then show ?case by simp
next
  case (Suc w)
  show ?case
  proof (cases w)
    case 0
    then show ?thesis by simp
  next
    case (Suc k)
    then have ne: "int_to_bytes w (v div 256) \<noteq> []"
      using length_int_to_bytes [of w "v div 256"] by auto
    have "(of_char (hd (int_to_bytes w (v div 256))) :: int)
            = v div 256 div 2 ^ (8 * (w - 1)) mod 256"
      using Suc.IH [of "v div 256"] Suc by simp
    moreover have "v div 256 div 2 ^ (8 * (w - 1)) = v div 2 ^ (8 * w)"
      using Suc zdiv_zmult2_eq [of "2 ^ (8 * k)" v 256] by (simp add: power_add)
    ultimately show ?thesis using ne by simp
  qed
qed

lemma convert_bytes_to_int_to_bytes:
  assumes "0 < w" and "0 \<le> v" and "v < 2 ^ (8 * w - 1)"
  shows "convert_bytes_to_int (int_to_bytes w v) = v"
proof -
  have p: "(2::int) ^ (8 * w) = 2 * 2 ^ (8 * w - 1)" "(2::int) ^ (8 * w - 1) = 128 * 2 ^ (8 * (w - 1))"
    using assms(1) by (cases w; simp add: power_add)+
  have "v < 2 ^ (8 * w)" using assms p by simp
  then have be: "big_endian (int_to_bytes w v) = v"
    using assms by (simp add: big_endian_int_to_bytes)
  define P :: int where "P = 2 ^ (8 * (w - 1))"
  have pos: "0 < P" by (simp add: P_def)
  have "P * (v div P) + v mod P = v" by (rule mult_div_mod_eq)
  moreover have "0 \<le> v mod P" using pos by (rule pos_mod_sign)
  ultimately have "P * (v div P) \<le> v" by linarith
  also have "v < P * 128" using assms(3) p(2) by (simp add: P_def)
  finally have "v div P < 128" using pos by simp
  then have "v div 2 ^ (8 * (w - 1)) < 128" by (simp add: P_def)
  moreover have "0 \<le> v div 2 ^ (8 * (w - 1))" using assms(2) by (simp add: pos_imp_zdiv_nonneg_iff)
  ultimately have "(of_char (hd (int_to_bytes w v)) :: int) < 128"
    using assms(1) by (simp add: hd_int_to_bytes)
  then show ?thesis by (simp add: convert_bytes_to_int_def be)
qed

lemma read_int16_wire:
  "0 \<le> v \<Longrightarrow> v < 2 ^ 15 \<Longrightarrow> read_int16 (int_to_bytes 2 v @ rest) = (v, rest)"
  using convert_bytes_to_int_to_bytes [of 2 v]
  by (simp add: read_int16_def INT16_def buffer_read_def length_int_to_bytes)

lemma read_int32_wire:
  "0 \<le> v \<Longrightarrow> v < 2 ^ 31 \<Longrightarrow> read_int32 (int_to_bytes 4 v @ rest) = (v, rest)"
  using convert_bytes_to_int_to_bytes [of 4 v]
  by (simp add: read_int32_def INT32_def buffer_read_def length_int_to_bytes)

lemma read_utf8_exact:
  "valid_utf8 val \<Longrightarrow> read_utf8 (int (length val)) (val @ rest) = Inr (val, rest)"
  by (simp add: read_utf8_def buffer_read_def convert_bytes_to_utf8_def)

lemma read_columns_wire:
  "well_formed_columns cols \<Longrightarrow>
     read_columns (length cols) acc (concat (map wire_column cols) @ rest) = Inr (acc @ cols, rest)"
proof (induction cols arbitrary: acc)
  case Nil
  show ?case by simp
next
  case (Cons c cs)
  then have wf: "well_formed_column c" and wfs: "well_formed_columns cs" by simp_all
  from wf obtain category where cat: "col_data_category c = Some category"
    by (auto simp: well_formed_column_def split: option.splits)
  let ?more = "concat (map wire_column cs) @ rest"
  show ?case
  proof (cases "category = ''n'' \<or> category = ''u''")
    case True
    with wf cat have f: "col_data_length c = None" "col_data c = None"
      by (auto simp: well_formed_column_def)
    have c: "c = \<lparr>col_data_category = Some category, col_data_length = None, col_data = None\<rparr>"
      using cat f by (cases c) simp
    have w: "wire_column c = category" using cat f by (simp add: wire_column_def)
    have r: "read_utf8 1 (wire_column c @ ?more) = Inr (category, ?more)"
      using True w by (auto simp: read_utf8_one_cons)
    show ?thesis
      using True r c Cons.IH [OF wfs, of "acc @ [c]"] by auto
  next
    case False
    with wf cat have t: "category = ''t''"
      by (auto simp: well_formed_column_def split: if_splits)
    with wf cat obtain len val where f: "col_data_length c = Some len" "col_data c = Some val"
      and lv: "len = int (length val)" "len < 2 ^ 31" "valid_utf8 val"
      by (auto simp: well_formed_column_def split: option.splits)
    have c: "c = \<lparr>col_data_category = Some category, col_data_length = Some len,
                     col_data = Some val\<rparr>"
      using cat f by (cases c) simp
    have w: "wire_column c @ ?more = CHR ''t'' # (int_to_bytes 4 len @ (val @ ?more))"
      using cat f t by (simp add: wire_column_def)
    have r1: "read_utf8 1 (wire_column c @ ?more) = Inr (''t'', int_to_bytes 4 len @ (val @ ?more))"
      unfolding w by (simp add: read_utf8_one_cons)
    have r2: "read_int32 (int_to_bytes 4 len @ (val @ ?more)) = (len, val @ ?more)"
      using lv by (intro read_int32_wire) simp_all
    have r3: "read_utf8 len (val @ ?more) = Inr (val, ?more)"
      using lv read_utf8_exact [of val ?more] by simp
    show ?thesis
      using t r1 r2 r3 c Cons.IH [OF wfs, of "acc @ [c]"] by simp
  qed
qed

text \<open>
  Claim C4, as the code has it. For every well-formed TupleData buffer, that is an
  Int16 count \<open>k\<close> followed by exactly \<open>k\<close> columns, each of them "n", "u", or "t" with
  an Int32 length and a value of that many bytes of well-formed UTF-8, the decode
  succeeds, \<open>n_columns\<close> is \<open>k\<close>, and the column list has exactly the \<open>k\<close> columns of
  the buffer in wire order: "n" and "u" with no length and no value, "t" with the
  declared length and a value of that byte length. The bytes after the TupleData are
  left in the buffer.
\<close>

theorem read_tuple_data_wire:
  assumes "well_formed_columns cols" and "length cols < 2 ^ 15"
  shows "read_tuple_data (wire_tuple_data cols @ rest)
           = Inr (\<lparr>n_columns = int (length cols), column_data = cols\<rparr>, rest)"
proof -
  have "int (length cols) < 2 ^ 15" using assms(2) by (simp flip: of_nat_less_iff)
  then have "read_int16 (wire_tuple_data cols @ rest)
               = (int (length cols), concat (map wire_column cols) @ rest)"
    by (simp add: wire_tuple_data_def read_int16_wire)
  then show ?thesis
    using read_columns_wire [OF assms(1), of "[]" rest]
    by (simp add: read_tuple_data_def)
qed

theorem read_tuple_data_wire_witness:
  "read_tuple_data
     [CHR 0x00, CHR 0x03, CHR ''n'', CHR ''t'', CHR 0x00, CHR 0x00, CHR 0x00, CHR 0x02,
      CHR ''a'', CHR ''b'', CHR ''u'', CHR ''Z'']
     = Inr (\<lparr>n_columns = 3,
             column_data =
               [\<lparr>col_data_category = Some ''n'', col_data_length = None, col_data = None\<rparr>,
                \<lparr>col_data_category = Some ''t'', col_data_length = Some 2,
                   col_data = Some ''ab''\<rparr>,
                \<lparr>col_data_category = Some ''u'', col_data_length = None, col_data = None\<rparr>]\<rparr>,
            ''Z'')"
proof -
  let ?cols =
    "[\<lparr>col_data_category = Some ''n'', col_data_length = None, col_data = None\<rparr>,
      \<lparr>col_data_category = Some ''t'', col_data_length = Some 2, col_data = Some ''ab''\<rparr>,
      \<lparr>col_data_category = Some ''u'', col_data_length = None, col_data = None\<rparr>]"
  have two: "int_to_bytes 2 v = [char_of (v div 256), char_of v]" for v
    by (simp add: numeral_2_eq_2)
  have four: "int_to_bytes 4 v
      = [char_of (v div 256 div 256 div 256), char_of (v div 256 div 256), char_of (v div 256),
         char_of v]" for v
    by (simp add: numeral_Bit0 [of "Num.Bit0 Num.One"] numeral_2_eq_2)
  have ch: "char_of (0::int) = CHR 0x00" "char_of (2::int) = CHR 0x02"
    "char_of (3::int) = CHR 0x03"
    by (simp_all add: char_of_def)
  have wire: "wire_tuple_data ?cols @ ''Z''
      = [CHR 0x00, CHR 0x03, CHR ''n'', CHR ''t'', CHR 0x00, CHR 0x00, CHR 0x00, CHR 0x02,
         CHR ''a'', CHR ''b'', CHR ''u'', CHR ''Z'']"
    by (simp add: wire_tuple_data_def wire_column_def two four ch)
  have wf: "well_formed_columns ?cols" by (simp add: well_formed_column_def)
  show ?thesis
    using read_tuple_data_wire [OF wf, of "''Z''"] unfolding wire by simp
qed

text \<open>
  Claim C4 as stated fails on buffers that decode successfully. With the count \<open>-1\<close>
  the decode returns no column, not \<open>-1\<close> columns. With one "t" column that declares
  5 bytes and a buffer that ends after 2, the decode returns the value "ab" of 2 bytes
  under the length 5.
\<close>

theorem read_tuple_data_wire_counterexample:
  "read_tuple_data [CHR 0xFF, CHR 0xFF] = Inr (\<lparr>n_columns = - 1, column_data = []\<rparr>, [])
   \<and> read_tuple_data
       [CHR 0x00, CHR 0x01, CHR ''t'', CHR 0x00, CHR 0x00, CHR 0x00, CHR 0x05, CHR ''a'', CHR ''b'']
     = Inr (\<lparr>n_columns = 1,
             column_data = [\<lparr>col_data_category = Some ''t'', col_data_length = Some 5,
                              col_data = Some ''ab''\<rparr>]\<rparr>, [])"
  by (simp add: read_tuple_data_def eval_defs)

end
